theory Spec2Isabelle
  imports Main
begin

section \<open>Role assignments of infinitystone: the views of \<open>rbac.py\<close>\<close>

text \<open>
  The module \<open>infinitystone/views/rbac.py\<close> creates, removes and lists the rows of the
  table \<open>luxon_user_role\<close>. Every handler talks to the database through SQL text with
  \<open>?\<close> placeholders. The model keeps that shape: a small abstract syntax of the
  \<open>WHERE\<close> clauses the module writes, evaluated row by row with SQL's three-valued
  logic, and the tables as lists of records.
\<close>

subsection \<open>Python values and exceptions\<close>

text \<open>
  The exceptions the module raises. \<open>TypeError\<close> is what Python raises for
  \<open>cur.fetchone()['id']\<close> when \<open>fetchone\<close> returned \<open>None\<close>. The text of
  \<open>HTTPNotFound\<close> is \<open>"No entry for %s" % where\<close>, Python's rendering of the
  dictionary \<open>where\<close>; the model carries the dictionary itself.
\<close>

datatype error =
    ValidationError string
  | AccessDenied string
  | HTTPNotFound "(string \<times> string option) list"
  | TypeError

text \<open>The literal \<open>'00000000-0000-0000-0000-000000000000'\<close>, written out three times in the source.\<close>

definition zero_uuid :: string where
  "zero_uuid = ''00000000-0000-0000-0000-000000000000''"

text \<open>\<open>'%s' % v\<close>: a string is printed as it is, \<open>None\<close> as the text \<open>None\<close>.\<close>

fun str_of :: "string option \<Rightarrow> string" where
  "str_of None = ''None''"
| "str_of (Some s) = s"

definition quoted :: "string \<Rightarrow> string" where
  "quoted s = CHR 0x27 # s @ [CHR 0x27]"

text \<open>
  \<open>str.lower()\<close>. Strings are byte strings here; the ASCII capitals are mapped to small
  letters and every other byte stays. (No character outside ASCII has a lower-case form
  made of the letters of \<open>none\<close>, so the test \<open>domain.lower() == "none"\<close> is decided by
  the ASCII letters alone.)
\<close>

definition lower_char :: "char \<Rightarrow> char" where
  "lower_char c =
     (if (65::nat) \<le> of_char c \<and> of_char c \<le> (90::nat)
      then char_of (of_char c + (32::nat)) else c)"

definition lower :: "string \<Rightarrow> string" where
  "lower s = map lower_char s"

subsection \<open>SQL: values, conditions, three-valued evaluation\<close>

datatype sqlval = Null | Text string | Time nat

text \<open>
  An operand of a comparison: a column name, a string literal written in single quotes
  in the SQL text, or a \<open>?\<close> placeholder together with the value bound to it from the
  parameter list.
\<close>

datatype operand = Col string | Lit string | Arg string

datatype cond =
    Eq operand operand
  | IsNull operand
  | Or cond cond

fun operand_val :: "(string \<Rightarrow> sqlval) \<Rightarrow> operand \<Rightarrow> sqlval" where
  "operand_val row (Col c) = row c"
| "operand_val row (Lit s) = Text s"
| "operand_val row (Arg v) = Text v"

text \<open>
  Truth values of SQL: \<open>None\<close> is unknown (a comparison with \<open>NULL\<close>). Two
  strings are equal when they are the same sequence of characters (the binary
  collation).
\<close>

fun sql_eq :: "sqlval \<Rightarrow> sqlval \<Rightarrow> bool option" where
  "sql_eq Null b = None"
| "sql_eq a Null = None"
| "sql_eq a b = Some (a = b)"

fun sql_or :: "bool option \<Rightarrow> bool option \<Rightarrow> bool option" where
  "sql_or (Some True) q = Some True"
| "sql_or p (Some True) = Some True"
| "sql_or (Some False) (Some False) = Some False"
| "sql_or p q = None"

fun sql_and :: "bool option \<Rightarrow> bool option \<Rightarrow> bool option" where
  "sql_and (Some False) q = Some False"
| "sql_and p (Some False) = Some False"
| "sql_and (Some True) (Some True) = Some True"
| "sql_and p q = None"

fun eval_cond :: "(string \<Rightarrow> sqlval) \<Rightarrow> cond \<Rightarrow> bool option" where
  "eval_cond row (Eq a b) = sql_eq (operand_val row a) (operand_val row b)"
| "eval_cond row (IsNull a) = Some (operand_val row a = Null)"
| "eval_cond row (Or p q) = sql_or (eval_cond row p) (eval_cond row q)"

text \<open>
  A \<open>WHERE\<close> clause is the list of its conjuncts, joined by \<open>AND\<close> in the SQL text;
  appending \<open>" AND ..."\<close> to the text appends a conjunct. A row is selected when the
  clause evaluates to true (not to false, not to unknown).
\<close>

fun eval_where :: "(string \<Rightarrow> sqlval) \<Rightarrow> cond list \<Rightarrow> bool option" where
  "eval_where row [] = Some True"
| "eval_where row (c # cs) = sql_and (eval_cond row c) (eval_where row cs)"

definition selected :: "(string \<Rightarrow> sqlval) \<Rightarrow> cond list \<Rightarrow> bool" where
  "selected row w = (eval_where row w = Some True)"

text \<open>\<open>SELECT ... FROM table WHERE w\<close>: the selected rows, in table order.\<close>

definition select_from :: "('r \<Rightarrow> string \<Rightarrow> sqlval) \<Rightarrow> 'r list \<Rightarrow> cond list \<Rightarrow> 'r list" where
  "select_from cols table w = filter (\<lambda>r. selected (cols r) w) table"

text \<open>\<open>cur.fetchone()\<close> on a fresh cursor: the first row, or \<open>None\<close>.\<close>

fun fetchone :: "'r list \<Rightarrow> 'r option" where
  "fetchone [] = None"
| "fetchone (r # rs) = Some r"

text \<open>\<open>DELETE FROM table WHERE w\<close>: the table left, and \<open>cur.rowcount\<close>.\<close>

definition delete_from :: "('r \<Rightarrow> string \<Rightarrow> sqlval) \<Rightarrow> 'r list \<Rightarrow> cond list \<Rightarrow> 'r list \<times> nat" where
  "delete_from cols table w =
     (filter (\<lambda>r. \<not> selected (cols r) w) table,
      length (filter (\<lambda>r. selected (cols r) w) table))"

text \<open>
  Modelled from the spec: \<open>parse_sql_where\<close> of \<open>infinitystone.utils.api\<close> is imported
  by \<open>rbac.py\<close> and is not among the sources. The spec describes it as the builder that
  turns a map of fields into a parameterised conjunction, where a field whose value is
  null must match the rows in which that column is null (and is not dropped from the
  filter), and any other value is compared by equality through a placeholder.
\<close>

fun parse_sql_where :: "(string \<times> string option) list \<Rightarrow> cond list" where
  "parse_sql_where [] = []"
| "parse_sql_where ((k, None) # w) = IsNull (Col k) # parse_sql_where w"
| "parse_sql_where ((k, Some v) # w) = Eq (Col k) (Arg v) # parse_sql_where w"

subsection \<open>The tables\<close>

text \<open>
  The columns the module reads and writes. The table declarations are not among the
  sources: \<open>id\<close>, \<open>user_id\<close>, \<open>role_id\<close> and \<open>name\<close> are taken to hold strings,
  \<open>domain\<close> and \<open>tenant_id\<close> may be \<open>NULL\<close>.
\<close>

record luxon_role_row =
  r_id :: string
  r_name :: string

record luxon_user_row =
  u_id :: string
  u_domain :: "string option"
  u_tenant_id :: "string option"

record luxon_user_role_row =
  ur_id :: string
  ur_role_id :: string
  ur_tenant_id :: "string option"
  ur_user_id :: string
  ur_domain :: "string option"
  ur_creation_time :: nat

fun nullable :: "string option \<Rightarrow> sqlval" where
  "nullable None = Null"
| "nullable (Some s) = Text s"

definition role_cols :: "luxon_role_row \<Rightarrow> string \<Rightarrow> sqlval" where
  "role_cols r c =
     (if c = ''id'' then Text (r_id r)
      else if c = ''name'' then Text (r_name r)
      else Null)"

definition user_cols :: "luxon_user_row \<Rightarrow> string \<Rightarrow> sqlval" where
  "user_cols u c =
     (if c = ''id'' then Text (u_id u)
      else if c = ''domain'' then nullable (u_domain u)
      else if c = ''tenant_id'' then nullable (u_tenant_id u)
      else Null)"

definition user_role_cols :: "luxon_user_role_row \<Rightarrow> string \<Rightarrow> sqlval" where
  "user_role_cols r c =
     (if c = ''id'' then Text (ur_id r)
      else if c = ''role_id'' then Text (ur_role_id r)
      else if c = ''tenant_id'' then nullable (ur_tenant_id r)
      else if c = ''user_id'' then Text (ur_user_id r)
      else if c = ''domain'' then nullable (ur_domain r)
      else if c = ''creation_time'' then Time (ur_creation_time r)
      else Null)"

record database =
  luxon_role :: "luxon_role_row list"
  luxon_user :: "luxon_user_row list"
  luxon_user_role :: "luxon_user_role_row list"

subsection \<open>\<open>check_unique\<close>\<close>

definition unique_msg :: "string \<Rightarrow> string \<Rightarrow> string option \<Rightarrow> string option \<Rightarrow> string" where
  "unique_msg id' role domain tenant_id =
     ''Entry for user '' @ quoted id' @ '' role '' @ quoted role
     @ '' already exists on domain '' @ quoted (str_of domain)
     @ '' and tenant '' @ quoted (str_of tenant_id) @ ''.''"

definition check_unique ::
  "database \<Rightarrow> string \<Rightarrow> string \<Rightarrow> string option \<Rightarrow> string option \<Rightarrow> error + unit" where
  "check_unique conn id' role domain tenant_id =
     (let sql = [Eq (Col ''user_id'') (Arg id'), Eq (Col ''role_id'') (Arg role)];
          where' = [(''domain'', domain), (''tenant_id'', tenant_id)];
          query = parse_sql_where where';
          cur = select_from user_role_cols (luxon_user_role conn) (sql @ query)
      in case fetchone cur of
           Some row \<Rightarrow> Inl (ValidationError (unique_msg id' role domain tenant_id))
         | None \<Rightarrow> Inr ())"

subsection \<open>\<open>check_context_auth\<close>\<close>

definition not_authorized_msg :: "string \<Rightarrow> string option \<Rightarrow> string option \<Rightarrow> string" where
  "not_authorized_msg req_user_id domain tenant_id =
     ''User '' @ req_user_id @ '' not authorized in requested context ''
     @ '': domain '' @ quoted (str_of domain)
     @ '', tenant_id '' @ quoted (str_of tenant_id)"

definition not_exist_msg :: "string \<Rightarrow> string option \<Rightarrow> string option \<Rightarrow> string" where
  "not_exist_msg user_id domain tenant_id =
     ''User '' @ user_id @ '' does not exist in context - ''
     @ ''domain: '' @ quoted (str_of domain)
     @ '', tenant_id: '' @ quoted (str_of tenant_id)"

text \<open>
  The second half of the function: does the requested user belong to the domain and
  tenant?
\<close>

definition check_user_in_context ::
  "database \<Rightarrow> string \<Rightarrow> string option \<Rightarrow> string option \<Rightarrow> error + unit" where
  "check_user_in_context conn user_id domain tenant_id =
     (let where' = [(''id'', Some user_id), (''domain'', domain), (''tenant_id'', tenant_id)];
          query = parse_sql_where where';
          cur = select_from user_cols (luxon_user conn) query
      in case fetchone cur of
           None \<Rightarrow> Inl (AccessDenied (not_exist_msg user_id domain tenant_id))
         | Some row \<Rightarrow> Inr ())"

text \<open>
  \<open>req_user_id\<close> is \<open>g.current_request.token.user_id\<close>, read from the ambient request
  in the source and passed as an argument here. The conjunct appended to the query is,
  in the source's SQL text, \<open>('role_id'='00000000-0000-0000-0000-000000000000' OR role_id=?)\<close>:
  its first comparison has a quoted string on both sides, its second compares the
  column \<open>role_id\<close> with the placeholder bound to \<open>admin_id\<close>.
\<close>

definition check_context_auth ::
  "string \<Rightarrow> database \<Rightarrow> string \<Rightarrow> string option \<Rightarrow> string option \<Rightarrow> error + unit" where
  "check_context_auth req_user_id conn user_id domain tenant_id =
     (if req_user_id \<noteq> zero_uuid then
        (case fetchone (select_from role_cols (luxon_role conn)
                          [Eq (Col ''name'') (Arg ''Administrator'')]) of
           None \<Rightarrow> Inl TypeError
         | Some admin \<Rightarrow>
             (let admin_id = r_id admin;
                  where' = [(''user_id'', Some req_user_id), (''domain'', domain),
                            (''tenant_id'', tenant_id)];
                  query = parse_sql_where where'
                          @ [Or (Eq (Lit ''role_id'') (Lit zero_uuid))
                                (Eq (Col ''role_id'') (Arg admin_id))];
                  cur = select_from user_role_cols (luxon_user_role conn) query
              in case fetchone cur of
                   None \<Rightarrow> Inl (AccessDenied (not_authorized_msg req_user_id domain tenant_id))
                 | Some row \<Rightarrow> check_user_in_context conn user_id domain tenant_id))
      else check_user_in_context conn user_id domain tenant_id)"

subsection \<open>\<open>user_roles\<close>: \<open>GET /v1/rbac/user/{id}\<close>\<close>

text \<open>
  The two headers are \<open>None\<close> when absent. \<open>if domain:\<close> is Python's truthiness: the
  filter is added for a string that is not empty. The rows are returned as selected
  (the JSON rendering of them is left out).
\<close>

definition user_roles ::
  "database \<Rightarrow> string \<Rightarrow> string option \<Rightarrow> string option \<Rightarrow> luxon_user_role_row list" where
  "user_roles conn id' x_domain x_tenant_id =
     (let sql = [Eq (Col ''user_id'') (Arg id')];
          sql = (case x_domain of
                   Some domain \<Rightarrow>
                     if domain \<noteq> [] then sql @ [Eq (Col ''domain'') (Arg domain)] else sql
                 | None \<Rightarrow> sql);
          sql = (case x_tenant_id of
                   Some tenant_id \<Rightarrow>
                     if tenant_id \<noteq> [] then sql @ [Eq (Col ''tenant_id'') (Arg tenant_id)]
                     else sql
                 | None \<Rightarrow> sql)
      in select_from user_role_cols (luxon_user_role conn) sql)"

subsection \<open>\<open>add_user_role\<close>: \<open>POST /v1/rbac/user/{id}/{role}[/{domain}[/{tenant_id}]]\<close>\<close>

text \<open>The dictionary the handler returns as JSON.\<close>

record user_role_json =
  j_id :: string
  j_user_id :: string
  j_role_id :: string
  j_domain :: "string option"
  j_tenant_id :: "string option"

text \<open>
  The first statement of the handler:
  \<open>if domain is not None and domain.lower() == "none": domain = None\<close>.
\<close>

definition none_to_null :: "string option \<Rightarrow> string option" where
  "none_to_null domain =
     (case domain of
        Some d \<Rightarrow> if lower d = ''none'' then None else Some d
      | None \<Rightarrow> None)"

text \<open>
  \<open>uuid\<close> is the value of \<open>str(uuid4())\<close> and \<open>now\<close> the value of \<open>now()\<close> in this
  call. The handler returns its result (or raises) and leaves a database behind; both
  are returned. The insert is taken to succeed: the table declaration, with whatever
  constraints it has, is not among the sources.
\<close>

definition add_user_role ::
  "string \<Rightarrow> string \<Rightarrow> nat \<Rightarrow> database \<Rightarrow> string \<Rightarrow> string \<Rightarrow> string option \<Rightarrow> string option
   \<Rightarrow> (error + user_role_json) \<times> database" where
  "add_user_role req_user_id uuid now conn id' role domain0 tenant_id =
     (let domain = none_to_null domain0
      in case check_context_auth req_user_id conn id' domain tenant_id of
           Inl e \<Rightarrow> (Inl e, conn)
         | Inr u \<Rightarrow>
             (case check_unique conn id' role domain tenant_id of
                Inl e \<Rightarrow> (Inl e, conn)
              | Inr u' \<Rightarrow>
                  (let user_role_id = uuid;
                       conn' = conn\<lparr>luxon_user_role := luxon_user_role conn @
                                 [\<lparr>ur_id = user_role_id, ur_role_id = role,
                                   ur_tenant_id = tenant_id, ur_user_id = id',
                                   ur_domain = domain, ur_creation_time = now\<rparr>]\<rparr>
                   in (Inr \<lparr>j_id = user_role_id, j_user_id = id', j_role_id = role,
                            j_domain = domain, j_tenant_id = tenant_id\<rparr>, conn'))))"

subsection \<open>\<open>rm_user_role\<close>: \<open>DELETE /v1/rbac/user/{id}/{role}[/{domain}[/{tenant_id}]]\<close>\<close>

text \<open>
  The delete is executed and committed before \<open>rowcount\<close> is looked at, so the
  database returned is the one after the delete on both paths.
\<close>

definition rm_user_role ::
  "database \<Rightarrow> string \<Rightarrow> string \<Rightarrow> string option \<Rightarrow> string option \<Rightarrow> (error + unit) \<times> database" where
  "rm_user_role conn id' role domain tenant_id =
     (let where' = [(''user_id'', Some id'), (''role_id'', Some role),
                    (''tenant_id'', tenant_id), (''domain'', domain)];
          query = parse_sql_where where';
          (table', rowcount) = delete_from user_role_cols (luxon_user_role conn) query;
          conn' = conn\<lparr>luxon_user_role := table'\<rparr>
      in if rowcount = 0 then (Inl (HTTPNotFound where'), conn') else (Inr (), conn'))"

subsection \<open>The vocabulary of the specification\<close>

text \<open>
  A role assignment for the tuple (user, role, domain, tenant): the identifiers equal,
  domain and tenant equal as nullable values, so that null matches null and nothing else.
\<close>

definition same_assignment ::
  "string \<Rightarrow> string \<Rightarrow> string option \<Rightarrow> string option \<Rightarrow> luxon_user_role_row \<Rightarrow> bool" where
  "same_assignment id' role domain tenant_id r \<longleftrightarrow>
     ur_user_id r = id' \<and> ur_role_id r = role \<and> ur_domain r = domain \<and> ur_tenant_id r = tenant_id"

text \<open>A user row for this user in this scope.\<close>

definition in_scope_user ::
  "string \<Rightarrow> string option \<Rightarrow> string option \<Rightarrow> luxon_user_row \<Rightarrow> bool" where
  "in_scope_user id' domain tenant_id u \<longleftrightarrow>
     u_id u = id' \<and> u_domain u = domain \<and> u_tenant_id u = tenant_id"

text \<open>The role named \<open>Administrator\<close>: the first such row of \<open>luxon_role\<close>, if any.\<close>

definition admin_role :: "database \<Rightarrow> luxon_role_row option" where
  "admin_role conn = find (\<lambda>r. r_name r = ''Administrator'') (luxon_role conn)"

text \<open>
  A header of the list request against a column: an absent header and an empty one
  accept every value of the column, any other header accepts the rows that hold it.
\<close>

fun header_accepts :: "string option \<Rightarrow> string option \<Rightarrow> bool" where
  "header_accepts None col = True"
| "header_accepts (Some h) col = (h = [] \<or> col = Some h)"

subsection \<open>Example databases\<close>

text \<open>
  A requester \<open>u1\<close> whose only assignment carries the all-zero role identifier, in the
  global scope; the role \<open>Administrator\<close> exists, and so does the target user \<open>u2\<close>.
\<close>

definition db_global_admin :: database where
  "db_global_admin =
     \<lparr>luxon_role = [\<lparr>r_id = ''a1'', r_name = ''Administrator''\<rparr>],
      luxon_user = [\<lparr>u_id = ''u2'', u_domain = None, u_tenant_id = None\<rparr>],
      luxon_user_role =
        [\<lparr>ur_id = ''x1'', ur_role_id = ''00000000-0000-0000-0000-000000000000'',
          ur_tenant_id = None, ur_user_id = ''u1'', ur_domain = None,
          ur_creation_time = 0\<rparr>]\<rparr>"


text \<open>
  An administrator \<open>u1\<close> of the global scope, a user \<open>u2\<close> known in the global scope
  and in the domain \<open>x\<close>, and an assignment of \<open>u2\<close> whose domain column holds the
  text \<open>none\<close>.
\<close>

definition db_example :: database where
  "db_example =
     \<lparr>luxon_role = [\<lparr>r_id = ''r9'', r_name = ''Operator''\<rparr>,
                    \<lparr>r_id = ''a1'', r_name = ''Administrator''\<rparr>],
      luxon_user = [\<lparr>u_id = ''u1'', u_domain = None, u_tenant_id = None\<rparr>,
                    \<lparr>u_id = ''u2'', u_domain = None, u_tenant_id = None\<rparr>,
                    \<lparr>u_id = ''u2'', u_domain = Some ''x'', u_tenant_id = None\<rparr>],
      luxon_user_role =
        [\<lparr>ur_id = ''x1'', ur_role_id = ''a1'', ur_tenant_id = None, ur_user_id = ''u1'',
          ur_domain = None, ur_creation_time = 0\<rparr>,
         \<lparr>ur_id = ''x3'', ur_role_id = ''r9'', ur_tenant_id = None, ur_user_id = ''u2'',
          ur_domain = Some ''none'', ur_creation_time = 0\<rparr>,
         \<lparr>ur_id = ''x4'', ur_role_id = ''r8'', ur_tenant_id = Some ''t1'', ur_user_id = ''u2'',
          ur_domain = Some ''x'', ur_creation_time = 0\<rparr>]\<rparr>"

section \<open>Evaluating the queries\<close>

subsection \<open>Three-valued logic and the clause builder\<close>

lemma sql_and_True: "sql_and p q = Some True \<longleftrightarrow> p = Some True \<and> q = Some True"
  by (cases "(p, q)" rule: sql_and.cases) auto

lemma sql_or_True: "sql_or p q = Some True \<longleftrightarrow> p = Some True \<or> q = Some True"
  by (cases "(p, q)" rule: sql_or.cases) auto

lemma sql_eq_Text: "sql_eq a (Text v) = Some True \<longleftrightarrow> a = Text v"
  by (cases a) auto

lemma selected_Nil: "selected row []"
  by (simp add: selected_def)

lemma selected_Cons: "selected row (c # cs) \<longleftrightarrow> eval_cond row c = Some True \<and> selected row cs"
  by (simp add: selected_def sql_and_True)

lemma selected_append: "selected row (cs @ ds) \<longleftrightarrow> selected row cs \<and> selected row ds"
  by (induction cs) (simp_all add: selected_Nil selected_Cons)

lemma nullable_inj: "nullable a = nullable b \<longleftrightarrow> a = b"
  by (cases a; cases b) auto

lemma nullable_Text: "Text s = nullable v \<longleftrightarrow> v = Some s"
  by (cases v) auto

text \<open>
  The clause built from a dictionary selects a row exactly when every field of the
  dictionary agrees with the row's column as a nullable value.
\<close>

lemma selected_parse_sql_where:
  "selected row (parse_sql_where w) \<longleftrightarrow> list_all (\<lambda>(k, v). row k = nullable v) w"
proof (induction w rule: parse_sql_where.induct)
  case 1
  show ?case by (simp add: selected_Nil)
next
  case (2 k w)
  then show ?case by (simp add: selected_Cons)
next
  case (3 k v w)
  then show ?case by (simp add: selected_Cons sql_eq_Text)
qed

lemma fetchone_filter_None: "fetchone (filter P xs) = None \<longleftrightarrow> \<not> (\<exists>x\<in>set xs. P x)"
  by (induction xs) auto

lemma fetchone_filter_find: "fetchone (filter P xs) = find P xs"
  by (induction xs) auto

subsection \<open>The queries of the module, row by row\<close>

lemma unique_query_selected:
  "selected (user_role_cols r)
     (Eq (Col ''user_id'') (Arg id') # Eq (Col ''role_id'') (Arg role)
      # parse_sql_where [(''domain'', domain), (''tenant_id'', tenant_id)])
   \<longleftrightarrow> same_assignment id' role domain tenant_id r"
  by (auto simp add: selected_append selected_Cons selected_Nil sql_eq_Text
        selected_parse_sql_where user_role_cols_def same_assignment_def nullable_inj
        simp del: parse_sql_where.simps)

lemma delete_query_selected:
  "selected (user_role_cols r)
     (parse_sql_where [(''user_id'', Some id'), (''role_id'', Some role),
                       (''tenant_id'', tenant_id), (''domain'', domain)])
   \<longleftrightarrow> same_assignment id' role domain tenant_id r"
  by (auto simp add: selected_parse_sql_where user_role_cols_def same_assignment_def
        nullable_inj nullable_Text simp del: parse_sql_where.simps)

lemma user_query_selected:
  "selected (user_cols u)
     (parse_sql_where [(''id'', Some user_id), (''domain'', domain), (''tenant_id'', tenant_id)])
   \<longleftrightarrow> in_scope_user user_id domain tenant_id u"
  by (auto simp add: selected_parse_sql_where user_cols_def in_scope_user_def
        nullable_inj nullable_Text simp del: parse_sql_where.simps)

text \<open>
  The query of the administrator check. Its comparison of the two quoted strings is
  false for every row, so the disjunction is the comparison with \<open>admin_id\<close> alone.
\<close>

lemma admin_query_selected:
  "selected (user_role_cols r)
     (parse_sql_where [(''user_id'', Some req_user_id), (''domain'', domain),
                       (''tenant_id'', tenant_id)]
      @ [Or (Eq (Lit ''role_id'') (Lit zero_uuid)) (Eq (Col ''role_id'') (Arg admin_id))])
   \<longleftrightarrow> same_assignment req_user_id admin_id domain tenant_id r"
  by (auto simp add: selected_append selected_Cons selected_Nil sql_eq_Text sql_or_True
        selected_parse_sql_where user_role_cols_def same_assignment_def zero_uuid_def
        nullable_inj nullable_Text simp del: parse_sql_where.simps)

lemma role_query_fetchone:
  "fetchone (select_from role_cols (luxon_role conn) [Eq (Col ''name'') (Arg ''Administrator'')])
   = admin_role conn"
proof -
  have "selected (role_cols r) [Eq (Col ''name'') (Arg ''Administrator'')]
        \<longleftrightarrow> r_name r = ''Administrator''" for r
    by (simp add: selected_Cons selected_Nil sql_eq_Text role_cols_def)
  then show ?thesis
    by (simp add: select_from_def admin_role_def fetchone_filter_find)
qed

subsection \<open>The two guards in closed form\<close>

lemma check_unique_eq:
  "check_unique conn id' role domain tenant_id =
     (if \<exists>r\<in>set (luxon_user_role conn). same_assignment id' role domain tenant_id r
      then Inl (ValidationError (unique_msg id' role domain tenant_id))
      else Inr ())"
proof -
  let ?cur = "filter (same_assignment id' role domain tenant_id) (luxon_user_role conn)"
  have cur: "select_from user_role_cols (luxon_user_role conn)
          (Eq (Col ''user_id'') (Arg id') # Eq (Col ''role_id'') (Arg role)
           # parse_sql_where [(''domain'', domain), (''tenant_id'', tenant_id)]) = ?cur"
    unfolding select_from_def unique_query_selected ..
  show ?thesis
  proof (cases "fetchone ?cur")
    case None
    then show ?thesis
      using fetchone_filter_None [of "same_assignment id' role domain tenant_id" "luxon_user_role conn"]
      by (simp add: check_unique_def Let_def cur del: parse_sql_where.simps)
  next
    case (Some row)
    then show ?thesis
      using fetchone_filter_None [of "same_assignment id' role domain tenant_id" "luxon_user_role conn"]
      by (simp add: check_unique_def Let_def cur del: parse_sql_where.simps)
  qed
qed

lemma check_user_in_context_eq:
  "check_user_in_context conn user_id domain tenant_id =
     (if \<exists>u\<in>set (luxon_user conn). in_scope_user user_id domain tenant_id u
      then Inr ()
      else Inl (AccessDenied (not_exist_msg user_id domain tenant_id)))"
proof -
  let ?cur = "filter (in_scope_user user_id domain tenant_id) (luxon_user conn)"
  have cur: "select_from user_cols (luxon_user conn)
          (parse_sql_where [(''id'', Some user_id), (''domain'', domain),
                            (''tenant_id'', tenant_id)]) = ?cur"
    unfolding select_from_def user_query_selected ..
  show ?thesis
  proof (cases "fetchone ?cur")
    case None
    then show ?thesis
      using fetchone_filter_None [of "in_scope_user user_id domain tenant_id" "luxon_user conn"]
      by (simp add: check_user_in_context_def Let_def cur del: parse_sql_where.simps)
  next
    case (Some row)
    then show ?thesis
      using fetchone_filter_None [of "in_scope_user user_id domain tenant_id" "luxon_user conn"]
      by (simp add: check_user_in_context_def Let_def cur del: parse_sql_where.simps)
  qed
qed

lemma check_context_auth_root:
  "check_context_auth zero_uuid conn user_id domain tenant_id =
     check_user_in_context conn user_id domain tenant_id"
  by (simp add: check_context_auth_def)

lemma check_context_auth_no_admin_role:
  "req_user_id \<noteq> zero_uuid \<Longrightarrow> admin_role conn = None \<Longrightarrow>
   check_context_auth req_user_id conn user_id domain tenant_id = Inl TypeError"
  by (simp add: check_context_auth_def role_query_fetchone del: parse_sql_where.simps)

text \<open>
  For a requester other than root the guard passes the first stage exactly when the
  requester holds the role \<open>Administrator\<close> in the scope. The all-zero role identifier
  plays no part.
\<close>

lemma check_context_auth_admin:
  assumes "req_user_id \<noteq> zero_uuid" and "admin_role conn = Some admin"
  shows "check_context_auth req_user_id conn user_id domain tenant_id =
     (if \<exists>r\<in>set (luxon_user_role conn).
           same_assignment req_user_id (r_id admin) domain tenant_id r
      then check_user_in_context conn user_id domain tenant_id
      else Inl (AccessDenied (not_authorized_msg req_user_id domain tenant_id)))"
proof -
  let ?P = "same_assignment req_user_id (r_id admin) domain tenant_id"
  let ?cur = "filter ?P (luxon_user_role conn)"
  have cur: "select_from user_role_cols (luxon_user_role conn)
          (parse_sql_where [(''user_id'', Some req_user_id), (''domain'', domain),
                            (''tenant_id'', tenant_id)]
           @ [Or (Eq (Lit ''role_id'') (Lit zero_uuid))
                 (Eq (Col ''role_id'') (Arg (r_id admin)))]) = ?cur"
    unfolding select_from_def admin_query_selected ..
  show ?thesis
  proof (cases "fetchone ?cur")
    case None
    then show ?thesis
      using assms fetchone_filter_None [of ?P "luxon_user_role conn"]
      by (simp add: check_context_auth_def role_query_fetchone Let_def cur
            del: parse_sql_where.simps)
  next
    case (Some row)
    then show ?thesis
      using assms fetchone_filter_None [of ?P "luxon_user_role conn"]
      by (simp add: check_context_auth_def role_query_fetchone Let_def cur
            del: parse_sql_where.simps)
  qed
qed

lemma rm_user_role_eq:
  "rm_user_role conn id' role domain tenant_id =
     ((if \<exists>r\<in>set (luxon_user_role conn). same_assignment id' role domain tenant_id r
       then Inr ()
       else Inl (HTTPNotFound [(''user_id'', Some id'), (''role_id'', Some role),
                               (''tenant_id'', tenant_id), (''domain'', domain)])),
      conn\<lparr>luxon_user_role :=
             filter (\<lambda>r. \<not> same_assignment id' role domain tenant_id r) (luxon_user_role conn)\<rparr>)"
  by (simp add: rm_user_role_def Let_def delete_from_def delete_query_selected
        filter_empty_conv del: parse_sql_where.simps)

lemma filter_single_remove1:
  "filter P xs = [x] \<Longrightarrow> filter (\<lambda>y. \<not> P y) xs = remove1 x xs"
proof (induction xs)
  case Nil
  then show ?case by simp
next
  case (Cons a xs)
  show ?case
  proof (cases "P a")
    case True
    with Cons.prems have "a = x" and "filter P xs = []" by simp_all
    then have "filter (\<lambda>y. \<not> P y) xs = xs"
      by (simp add: filter_empty_conv)
    with True \<open>a = x\<close> show ?thesis by simp
  next
    case False
    with Cons.prems have "filter P xs = [x]" by simp
    then have "filter (\<lambda>y. \<not> P y) xs = remove1 x xs" by (rule Cons.IH)
    moreover from \<open>filter P xs = [x]\<close> have "x \<in> set (filter P xs)" by simp
    then have "P x" by simp
    with False have "a \<noteq> x" by auto
    ultimately show ?thesis using False by simp
  qed
qed

subsection \<open>Create in closed form\<close>

lemma add_user_role_eq:
  "add_user_role req_user_id uuid now conn id' role domain tenant_id =
     (case check_context_auth req_user_id conn id' (none_to_null domain) tenant_id of
        Inl e \<Rightarrow> (Inl e, conn)
      | Inr u \<Rightarrow>
          if \<exists>r\<in>set (luxon_user_role conn).
               same_assignment id' role (none_to_null domain) tenant_id r
          then (Inl (ValidationError (unique_msg id' role (none_to_null domain) tenant_id)), conn)
          else (Inr \<lparr>j_id = uuid, j_user_id = id', j_role_id = role,
                     j_domain = none_to_null domain, j_tenant_id = tenant_id\<rparr>,
                conn\<lparr>luxon_user_role := luxon_user_role conn @
                       [\<lparr>ur_id = uuid, ur_role_id = role, ur_tenant_id = tenant_id,
                         ur_user_id = id', ur_domain = none_to_null domain,
                         ur_creation_time = now\<rparr>]\<rparr>))"
  by (simp add: add_user_role_def Let_def check_unique_eq split: sum.splits)

lemma admin_role_user_role_update [simp]:
  "admin_role (conn\<lparr>luxon_user_role := rows\<rparr>) = admin_role conn"
  by (simp add: admin_role_def)

text \<open>Rows added to \<open>luxon_user_role\<close> never take an authorization away.\<close>

lemma check_context_auth_mono:
  assumes "check_context_auth req_user_id conn user_id domain tenant_id = Inr ()"
  shows "check_context_auth req_user_id
           (conn\<lparr>luxon_user_role := luxon_user_role conn @ rs\<rparr>) user_id domain tenant_id = Inr ()"
proof (cases "req_user_id = zero_uuid")
  case True
  with assms show ?thesis
    by (simp add: check_context_auth_root check_user_in_context_eq split: if_splits)
next
  case False
  show ?thesis
  proof (cases "admin_role conn")
    case None
    with False assms show ?thesis
      by (simp add: check_context_auth_no_admin_role)
  next
    case (Some admin)
    with False assms show ?thesis
      by (auto simp add: check_context_auth_admin check_user_in_context_eq split: if_splits)
  qed
qed

text \<open>Rows added in another domain do not change the answer for this domain.\<close>

lemma check_context_auth_other_domain:
  assumes "\<forall>r\<in>set rs. ur_domain r \<noteq> domain"
  shows "check_context_auth req_user_id
           (conn\<lparr>luxon_user_role := luxon_user_role conn @ rs\<rparr>) user_id domain tenant_id
         = check_context_auth req_user_id conn user_id domain tenant_id"
proof (cases "req_user_id = zero_uuid")
  case True
  then show ?thesis
    by (simp add: check_context_auth_root check_user_in_context_eq)
next
  case False
  show ?thesis
  proof (cases "admin_role conn")
    case None
    with False show ?thesis
      by (simp add: check_context_auth_no_admin_role)
  next
    case (Some admin)
    with False assms show ?thesis
      by (auto simp add: check_context_auth_admin check_user_in_context_eq same_assignment_def)
  qed
qed

section \<open>The claims\<close>

text \<open>
  C1. The specification lets a requester other than root pass the authorization check
  with an assignment, in the requested scope, whose role is the all-zero global
  administrator identifier or the role named Administrator. The query of
  \<open>check_context_auth\<close> writes the first alternative as a comparison of the quoted
  text \<open>'role_id'\<close> with the all-zero identifier, which no row satisfies. Here the
  requester \<open>u1\<close> holds the all-zero role in the global scope, the target user \<open>u2\<close>
  exists there, and Create is refused with AccessDenied for the requester; nothing is
  stored.
\<close>

theorem global_admin_assignment_refused:
  "add_user_role ''u1'' ''x2'' 1 db_global_admin ''u2'' ''r9'' None None
   = (Inl (AccessDenied (not_authorized_msg ''u1'' None None)), db_global_admin)"
proof -
  have root: "''u1'' \<noteq> zero_uuid"
    by (simp add: zero_uuid_def)
  have admin: "admin_role db_global_admin = Some \<lparr>r_id = ''a1'', r_name = ''Administrator''\<rparr>"
    by (simp add: admin_role_def db_global_admin_def)
  have "\<not> (\<exists>r\<in>set (luxon_user_role db_global_admin).
              same_assignment ''u1'' ''a1'' None None r)"
    by (simp add: same_assignment_def db_global_admin_def)
  with check_context_auth_admin [OF root admin, of "''u2''" None None]
  have "check_context_auth ''u1'' db_global_admin ''u2'' None None
        = Inl (AccessDenied (not_authorized_msg ''u1'' None None))"
    by simp
  then show ?thesis
    by (simp add: add_user_role_eq none_to_null_def)
qed

text \<open>
  C2. The uniqueness guard raises ValidationError exactly when a row of
  \<open>luxon_user_role\<close> has the same user and role and the same domain and tenant as
  nullable values, and passes otherwise. Hence a Create that succeeded, repeated with
  the same arguments on the database it left, fails with ValidationError; and a Create
  with no domain that succeeded leaves the outcome of a Create for the same user and
  role in a named domain \<open>x\<close> as it was before (the two tuples are distinct).
\<close>

theorem check_unique_null_aware:
  "((check_unique conn id' role domain tenant_id
       = Inl (ValidationError (unique_msg id' role domain tenant_id)))
      = (\<exists>r\<in>set (luxon_user_role conn). same_assignment id' role domain tenant_id r))
   \<and> ((check_unique conn id' role domain tenant_id = Inr ())
      = (\<not> (\<exists>r\<in>set (luxon_user_role conn). same_assignment id' role domain tenant_id r)))
   \<and> (add_user_role req_user_id uuid now conn id' role domain tenant_id = (Inr j, conn')
      \<longrightarrow> add_user_role req_user_id uuid2 now2 conn' id' role domain tenant_id
          = (Inl (ValidationError (unique_msg id' role (none_to_null domain) tenant_id)), conn'))
   \<and> (add_user_role req_user_id uuid now conn id' role None tenant_id = (Inr j, conn')
        \<and> lower x \<noteq> ''none''
      \<longrightarrow> fst (add_user_role req_user_id uuid2 now2 conn' id' role (Some x) tenant_id)
          = fst (add_user_role req_user_id uuid2 now2 conn id' role (Some x) tenant_id))"
proof (intro conjI impI)
  show "(check_unique conn id' role domain tenant_id
           = Inl (ValidationError (unique_msg id' role domain tenant_id)))
        = (\<exists>r\<in>set (luxon_user_role conn). same_assignment id' role domain tenant_id r)"
    by (simp add: check_unique_eq)
next
  show "(check_unique conn id' role domain tenant_id = Inr ())
        = (\<not> (\<exists>r\<in>set (luxon_user_role conn). same_assignment id' role domain tenant_id r))"
    by (simp add: check_unique_eq)
next
  let ?d = "none_to_null domain"
  let ?row = "\<lparr>ur_id = uuid, ur_role_id = role, ur_tenant_id = tenant_id, ur_user_id = id',
               ur_domain = ?d, ur_creation_time = now\<rparr>"
  assume ok: "add_user_role req_user_id uuid now conn id' role domain tenant_id = (Inr j, conn')"
  then have auth: "check_context_auth req_user_id conn id' ?d tenant_id = Inr ()"
    and conn': "conn' = conn\<lparr>luxon_user_role := luxon_user_role conn @ [?row]\<rparr>"
    by (auto simp add: add_user_role_eq split: sum.splits if_splits)
  have "check_context_auth req_user_id conn' id' ?d tenant_id = Inr ()"
    unfolding conn' using auth by (rule check_context_auth_mono)
  moreover have "\<exists>r\<in>set (luxon_user_role conn'). same_assignment id' role ?d tenant_id r"
    by (simp add: conn' same_assignment_def)
  ultimately show "add_user_role req_user_id uuid2 now2 conn' id' role domain tenant_id
      = (Inl (ValidationError (unique_msg id' role ?d tenant_id)), conn')"
    by (simp add: add_user_role_eq)
next
  let ?row = "\<lparr>ur_id = uuid, ur_role_id = role, ur_tenant_id = tenant_id, ur_user_id = id',
               ur_domain = None, ur_creation_time = now\<rparr>"
  assume "add_user_role req_user_id uuid now conn id' role None tenant_id = (Inr j, conn')
          \<and> lower x \<noteq> ''none''"
  then have ok: "add_user_role req_user_id uuid now conn id' role None tenant_id = (Inr j, conn')"
    and x: "none_to_null (Some x) = Some x"
    by (simp_all add: none_to_null_def)
  from ok have conn': "conn' = conn\<lparr>luxon_user_role := luxon_user_role conn @ [?row]\<rparr>"
    by (auto simp add: add_user_role_eq none_to_null_def split: sum.splits if_splits)
  have "check_context_auth req_user_id conn' id' (Some x) tenant_id
        = check_context_auth req_user_id conn id' (Some x) tenant_id"
    unfolding conn' by (rule check_context_auth_other_domain) simp
  then show "fst (add_user_role req_user_id uuid2 now2 conn' id' role (Some x) tenant_id)
      = fst (add_user_role req_user_id uuid2 now2 conn id' role (Some x) tenant_id)"
    by (auto simp add: add_user_role_eq x conn' same_assignment_def split: sum.splits)
qed

theorem check_unique_null_aware_witness:
  "add_user_role zero_uuid ''x5'' 1 db_example ''u2'' ''r9'' None None
     = (Inr \<lparr>j_id = ''x5'', j_user_id = ''u2'', j_role_id = ''r9'', j_domain = None,
              j_tenant_id = None\<rparr>,
        db_example\<lparr>luxon_user_role := luxon_user_role db_example @
          [\<lparr>ur_id = ''x5'', ur_role_id = ''r9'', ur_tenant_id = None, ur_user_id = ''u2'',
            ur_domain = None, ur_creation_time = 1\<rparr>]\<rparr>)
   \<and> lower ''x'' \<noteq> ''none''
   \<and> check_unique db_example ''u2'' ''r9'' None None = Inr ()
   \<and> check_unique db_example ''u2'' ''r9'' (Some ''none'') None
       = Inl (ValidationError (unique_msg ''u2'' ''r9'' (Some ''none'') None))
   \<and> add_user_role zero_uuid ''x6'' 2
        (db_example\<lparr>luxon_user_role := luxon_user_role db_example @
          [\<lparr>ur_id = ''x5'', ur_role_id = ''r9'', ur_tenant_id = None, ur_user_id = ''u2'',
            ur_domain = None, ur_creation_time = 1\<rparr>]\<rparr>) ''u2'' ''r9'' None None
       = (Inl (ValidationError (unique_msg ''u2'' ''r9'' None None)),
          db_example\<lparr>luxon_user_role := luxon_user_role db_example @
          [\<lparr>ur_id = ''x5'', ur_role_id = ''r9'', ur_tenant_id = None, ur_user_id = ''u2'',
            ur_domain = None, ur_creation_time = 1\<rparr>]\<rparr>)
   \<and> fst (add_user_role zero_uuid ''x6'' 2
        (db_example\<lparr>luxon_user_role := luxon_user_role db_example @
          [\<lparr>ur_id = ''x5'', ur_role_id = ''r9'', ur_tenant_id = None, ur_user_id = ''u2'',
            ur_domain = None, ur_creation_time = 1\<rparr>]\<rparr>) ''u2'' ''r9'' (Some ''x'') None)
       = Inr \<lparr>j_id = ''x6'', j_user_id = ''u2'', j_role_id = ''r9'', j_domain = Some ''x'',
              j_tenant_id = None\<rparr>"
proof -
  let ?j = "\<lparr>j_id = ''x5'', j_user_id = ''u2'', j_role_id = ''r9'', j_domain = None,
             j_tenant_id = None\<rparr>"
  let ?db = "db_example\<lparr>luxon_user_role := luxon_user_role db_example @
          [\<lparr>ur_id = ''x5'', ur_role_id = ''r9'', ur_tenant_id = None, ur_user_id = ''u2'',
            ur_domain = None, ur_creation_time = 1\<rparr>]\<rparr>"
  have first: "add_user_role zero_uuid ''x5'' 1 db_example ''u2'' ''r9'' None None = (Inr ?j, ?db)"
    by (simp add: add_user_role_eq check_context_auth_root check_user_in_context_eq
          none_to_null_def same_assignment_def in_scope_user_def db_example_def)
  have x: "lower ''x'' \<noteq> ''none''"
    by (simp add: lower_def)
  have none: "none_to_null None = None"
    by (simp add: none_to_null_def)
  have row: "\<exists>r\<in>set (luxon_user_role db_example). same_assignment ''u2'' ''r9'' (Some ''none'') None r"
    by (simp add: same_assignment_def db_example_def)
  have norow: "\<not> (\<exists>r\<in>set (luxon_user_role db_example). same_assignment ''u2'' ''r9'' None None r)"
    by (simp add: same_assignment_def db_example_def)
  have before: "fst (add_user_role zero_uuid ''x6'' 2 db_example ''u2'' ''r9'' (Some ''x'') None)
      = Inr \<lparr>j_id = ''x6'', j_user_id = ''u2'', j_role_id = ''r9'', j_domain = Some ''x'',
              j_tenant_id = None\<rparr>"
    by (simp add: add_user_role_eq check_context_auth_root check_user_in_context_eq
          none_to_null_def lower_def same_assignment_def in_scope_user_def db_example_def)
  note a = check_unique_null_aware [of db_example "''u2''" "''r9''" None None
      zero_uuid "''x5''" 1 ?j ?db "''x6''" 2 "''x''"]
  note b = check_unique_null_aware [of db_example "''u2''" "''r9''" "Some ''none''" None]
  from a first x none norow before b row show ?thesis
    by simp
qed

text \<open>
  C3. For the root requester the guard is the check of the target user alone: the role
  named Administrator is not looked up and no assignment of the requester is read. When
  the target user exists in the requested scope and the tuple is not yet assigned,
  Create succeeds: it returns the new record and appends the new row.
\<close>

theorem root_create_skips_privilege_lookup:
  "check_context_auth zero_uuid conn id' (none_to_null domain) tenant_id
     = check_user_in_context conn id' (none_to_null domain) tenant_id
   \<and> ((\<exists>u\<in>set (luxon_user conn). in_scope_user id' (none_to_null domain) tenant_id u)
       \<and> \<not> (\<exists>r\<in>set (luxon_user_role conn).
                same_assignment id' role (none_to_null domain) tenant_id r)
      \<longrightarrow> add_user_role zero_uuid uuid now conn id' role domain tenant_id
          = (Inr \<lparr>j_id = uuid, j_user_id = id', j_role_id = role,
                   j_domain = none_to_null domain, j_tenant_id = tenant_id\<rparr>,
             conn\<lparr>luxon_user_role := luxon_user_role conn @
                    [\<lparr>ur_id = uuid, ur_role_id = role, ur_tenant_id = tenant_id,
                      ur_user_id = id', ur_domain = none_to_null domain,
                      ur_creation_time = now\<rparr>]\<rparr>))"
  by (simp add: add_user_role_eq check_context_auth_root check_user_in_context_eq)

theorem root_create_skips_privilege_lookup_witness:
  "(\<exists>u\<in>set (luxon_user (db_example\<lparr>luxon_role := []\<rparr>)). in_scope_user ''u2'' (none_to_null (Some ''NONE'')) None u)
   \<and> \<not> (\<exists>r\<in>set (luxon_user_role (db_example\<lparr>luxon_role := []\<rparr>)).
            same_assignment ''u2'' ''r9'' (none_to_null (Some ''NONE'')) None r)
   \<and> add_user_role zero_uuid ''x5'' 7 (db_example\<lparr>luxon_role := []\<rparr>) ''u2'' ''r9'' (Some ''NONE'') None
       = (Inr \<lparr>j_id = ''x5'', j_user_id = ''u2'', j_role_id = ''r9'', j_domain = None,
                j_tenant_id = None\<rparr>,
          db_example\<lparr>luxon_role := [], luxon_user_role := luxon_user_role db_example @
                    [\<lparr>ur_id = ''x5'', ur_role_id = ''r9'', ur_tenant_id = None,
                      ur_user_id = ''u2'', ur_domain = None, ur_creation_time = 7\<rparr>]\<rparr>)"
proof -
  let ?db = "db_example\<lparr>luxon_role := []\<rparr>"
  have n: "none_to_null (Some ''NONE'') = None"
    by code_simp
  have u: "\<exists>u\<in>set (luxon_user ?db). in_scope_user ''u2'' (none_to_null (Some ''NONE'')) None u"
    by (simp add: n in_scope_user_def db_example_def)
  have r: "\<not> (\<exists>r\<in>set (luxon_user_role ?db).
            same_assignment ''u2'' ''r9'' (none_to_null (Some ''NONE'')) None r)"
    by (simp add: n same_assignment_def db_example_def)
  from root_create_skips_privilege_lookup [of ?db "''u2''" "Some ''NONE''" None "''r9''" "''x5''" 7]
    u r n show ?thesis
    by simp
qed




text \<open>
  C5. Remove deletes every row of \<open>luxon_user_role\<close> that carries the requested user,
  role, domain and tenant (domain and tenant compared as nullable values) and keeps
  every other row, in order. It raises NotFound, carrying the four requested fields,
  exactly when no row matched, and then the database is as it was; otherwise it returns
  with no body. When exactly one row matched, exactly that row is gone.
\<close>

theorem rm_user_role_deletes_matching:
  "rm_user_role conn id' role domain tenant_id =
     ((if \<exists>r\<in>set (luxon_user_role conn). same_assignment id' role domain tenant_id r
       then Inr ()
       else Inl (HTTPNotFound [(''user_id'', Some id'), (''role_id'', Some role),
                               (''tenant_id'', tenant_id), (''domain'', domain)])),
      conn\<lparr>luxon_user_role :=
             filter (\<lambda>r. \<not> same_assignment id' role domain tenant_id r) (luxon_user_role conn)\<rparr>)
   \<and> (\<not> (\<exists>r\<in>set (luxon_user_role conn). same_assignment id' role domain tenant_id r)
      \<longrightarrow> snd (rm_user_role conn id' role domain tenant_id) = conn)
   \<and> (filter (same_assignment id' role domain tenant_id) (luxon_user_role conn) = [row]
      \<longrightarrow> rm_user_role conn id' role domain tenant_id
          = (Inr (), conn\<lparr>luxon_user_role := remove1 row (luxon_user_role conn)\<rparr>))"
proof (intro conjI impI)
  show "rm_user_role conn id' role domain tenant_id =
     ((if \<exists>r\<in>set (luxon_user_role conn). same_assignment id' role domain tenant_id r
       then Inr ()
       else Inl (HTTPNotFound [(''user_id'', Some id'), (''role_id'', Some role),
                               (''tenant_id'', tenant_id), (''domain'', domain)])),
      conn\<lparr>luxon_user_role :=
             filter (\<lambda>r. \<not> same_assignment id' role domain tenant_id r) (luxon_user_role conn)\<rparr>)"
    by (rule rm_user_role_eq)
next
  assume none: "\<not> (\<exists>r\<in>set (luxon_user_role conn). same_assignment id' role domain tenant_id r)"
  then have "filter (\<lambda>r. \<not> same_assignment id' role domain tenant_id r) (luxon_user_role conn)
             = luxon_user_role conn"
    by (simp add: filter_id_conv)
  then show "snd (rm_user_role conn id' role domain tenant_id) = conn"
    by (simp add: rm_user_role_eq)
next
  assume one: "filter (same_assignment id' role domain tenant_id) (luxon_user_role conn) = [row]"
  then have "row \<in> set (filter (same_assignment id' role domain tenant_id) (luxon_user_role conn))"
    by simp
  then have ex: "\<exists>r\<in>set (luxon_user_role conn). same_assignment id' role domain tenant_id r"
    by auto
  from one have "filter (\<lambda>r. \<not> same_assignment id' role domain tenant_id r) (luxon_user_role conn)
                 = remove1 row (luxon_user_role conn)"
    by (rule filter_single_remove1)
  with ex show "rm_user_role conn id' role domain tenant_id
          = (Inr (), conn\<lparr>luxon_user_role := remove1 row (luxon_user_role conn)\<rparr>)"
    by (simp add: rm_user_role_eq)
qed

theorem rm_user_role_deletes_matching_witness:
  "\<not> (\<exists>r\<in>set (luxon_user_role db_example). same_assignment ''u2'' ''r9'' None None r)
   \<and> rm_user_role db_example ''u2'' ''r9'' None None
       = (Inl (HTTPNotFound [(''user_id'', Some ''u2''), (''role_id'', Some ''r9''),
                             (''tenant_id'', None), (''domain'', None)]), db_example)
   \<and> filter (same_assignment ''u2'' ''r8'' (Some ''x'') (Some ''t1'')) (luxon_user_role db_example)
       = [\<lparr>ur_id = ''x4'', ur_role_id = ''r8'', ur_tenant_id = Some ''t1'', ur_user_id = ''u2'',
           ur_domain = Some ''x'', ur_creation_time = 0\<rparr>]
   \<and> rm_user_role db_example ''u2'' ''r8'' (Some ''x'') (Some ''t1'')
       = (Inr (), db_example\<lparr>luxon_user_role :=
           [\<lparr>ur_id = ''x1'', ur_role_id = ''a1'', ur_tenant_id = None, ur_user_id = ''u1'',
             ur_domain = None, ur_creation_time = 0\<rparr>,
            \<lparr>ur_id = ''x3'', ur_role_id = ''r9'', ur_tenant_id = None, ur_user_id = ''u2'',
             ur_domain = Some ''none'', ur_creation_time = 0\<rparr>]\<rparr>)"
proof -
  let ?row = "\<lparr>ur_id = ''x4'', ur_role_id = ''r8'', ur_tenant_id = Some ''t1'',
               ur_user_id = ''u2'', ur_domain = Some ''x'', ur_creation_time = 0\<rparr>"
  have none: "\<not> (\<exists>r\<in>set (luxon_user_role db_example). same_assignment ''u2'' ''r9'' None None r)"
    by (simp add: same_assignment_def db_example_def)
  have one: "filter (same_assignment ''u2'' ''r8'' (Some ''x'') (Some ''t1''))
               (luxon_user_role db_example) = [?row]"
    by (simp add: same_assignment_def db_example_def)
  have rest: "remove1 ?row (luxon_user_role db_example) =
           [\<lparr>ur_id = ''x1'', ur_role_id = ''a1'', ur_tenant_id = None, ur_user_id = ''u1'',
             ur_domain = None, ur_creation_time = 0\<rparr>,
            \<lparr>ur_id = ''x3'', ur_role_id = ''r9'', ur_tenant_id = None, ur_user_id = ''u2'',
             ur_domain = Some ''none'', ur_creation_time = 0\<rparr>]"
    by (simp add: db_example_def)
  note a = rm_user_role_deletes_matching [of db_example "''u2''" "''r9''" None None]
  note b = rm_user_role_deletes_matching
             [of db_example "''u2''" "''r8''" "Some ''x''" "Some ''t1''" ?row]
  have nf: "rm_user_role db_example ''u2'' ''r9'' None None
       = (Inl (HTTPNotFound [(''user_id'', Some ''u2''), (''role_id'', Some ''r9''),
                             (''tenant_id'', None), (''domain'', None)]), db_example)"
    using a none by (simp add: prod_eq_iff)
  have ok: "rm_user_role db_example ''u2'' ''r8'' (Some ''x'') (Some ''t1'')
       = (Inr (), db_example\<lparr>luxon_user_role := remove1 ?row (luxon_user_role db_example)\<rparr>)"
    using conjunct2 [OF conjunct2 [OF b]] one by (rule mp)
  from none nf one ok rest show ?thesis
    by simp
qed

text \<open>
  C6. A Create whose domain, in lower case, is the text \<open>none\<close> is the Create with no
  domain: the same outcome, the same record returned, the same database left.
\<close>

theorem none_domain_is_null:
  "lower d = ''none'' \<Longrightarrow>
   add_user_role req_user_id uuid now conn id' role (Some d) tenant_id
   = add_user_role req_user_id uuid now conn id' role None tenant_id"
  by (simp add: add_user_role_def none_to_null_def)

theorem none_domain_is_null_witness:
  "lower ''NoNe'' = ''none''
   \<and> add_user_role zero_uuid ''x5'' 1 db_example ''u2'' ''r9'' (Some ''NoNe'') None
       = add_user_role zero_uuid ''x5'' 1 db_example ''u2'' ''r9'' None None
   \<and> add_user_role zero_uuid ''x5'' 1 db_example ''u2'' ''r9'' (Some ''NoNe'') None
       = (Inr \<lparr>j_id = ''x5'', j_user_id = ''u2'', j_role_id = ''r9'', j_domain = None,
                j_tenant_id = None\<rparr>,
          db_example\<lparr>luxon_user_role := luxon_user_role db_example @
            [\<lparr>ur_id = ''x5'', ur_role_id = ''r9'', ur_tenant_id = None, ur_user_id = ''u2'',
              ur_domain = None, ur_creation_time = 1\<rparr>]\<rparr>)"
proof -
  have l: "lower ''NoNe'' = ''none''"
    by code_simp
  have plain: "add_user_role zero_uuid ''x5'' 1 db_example ''u2'' ''r9'' None None
       = (Inr \<lparr>j_id = ''x5'', j_user_id = ''u2'', j_role_id = ''r9'', j_domain = None,
                j_tenant_id = None\<rparr>,
          db_example\<lparr>luxon_user_role := luxon_user_role db_example @
            [\<lparr>ur_id = ''x5'', ur_role_id = ''r9'', ur_tenant_id = None, ur_user_id = ''u2'',
              ur_domain = None, ur_creation_time = 1\<rparr>]\<rparr>)"
    by (simp add: add_user_role_eq check_context_auth_root check_user_in_context_eq
          none_to_null_def same_assignment_def in_scope_user_def db_example_def)
  from none_domain_is_null [OF l, of zero_uuid "''x5''" 1 db_example "''u2''" "''r9''" None]
    l plain show ?thesis
    by simp
qed

text \<open>
  C7. List returns the rows of \<open>luxon_user_role\<close> of the user, in table order; a domain
  header that is present (and not empty) keeps the rows whose domain equals it, and
  likewise a tenant header; with both headers absent every row of the user is
  returned, whatever its domain and tenant.
\<close>

theorem user_roles_filters_when_supplied:
  "user_roles conn id' x_domain x_tenant_id
     = filter (\<lambda>r. ur_user_id r = id' \<and> header_accepts x_domain (ur_domain r)
                  \<and> header_accepts x_tenant_id (ur_tenant_id r)) (luxon_user_role conn)
   \<and> user_roles conn id' None None = filter (\<lambda>r. ur_user_id r = id') (luxon_user_role conn)"
proof -
  have u: "sql_eq (user_role_cols r ''user_id'') (Text v) = Some True
           \<longleftrightarrow> ur_user_id r = v" for r v
    by (auto simp add: sql_eq_Text user_role_cols_def)
  have d: "sql_eq (user_role_cols r ''domain'') (Text v) = Some True
           \<longleftrightarrow> ur_domain r = Some v" for r v
    by (auto simp add: sql_eq_Text user_role_cols_def nullable_Text [symmetric])
  have t: "sql_eq (user_role_cols r ''tenant_id'') (Text v) = Some True
           \<longleftrightarrow> ur_tenant_id r = Some v" for r v
    by (auto simp add: sql_eq_Text user_role_cols_def nullable_Text [symmetric])
  show ?thesis
    by (cases x_domain; cases x_tenant_id)
       (simp_all add: user_roles_def Let_def select_from_def selected_Cons selected_Nil
          selected_append u d t)
qed

theorem user_roles_filters_when_supplied_witness:
  "user_roles db_example ''u2'' (Some ''x'') None
     = [\<lparr>ur_id = ''x4'', ur_role_id = ''r8'', ur_tenant_id = Some ''t1'', ur_user_id = ''u2'',
         ur_domain = Some ''x'', ur_creation_time = 0\<rparr>]
   \<and> user_roles db_example ''u2'' None None
     = [\<lparr>ur_id = ''x3'', ur_role_id = ''r9'', ur_tenant_id = None, ur_user_id = ''u2'',
         ur_domain = Some ''none'', ur_creation_time = 0\<rparr>,
        \<lparr>ur_id = ''x4'', ur_role_id = ''r8'', ur_tenant_id = Some ''t1'', ur_user_id = ''u2'',
         ur_domain = Some ''x'', ur_creation_time = 0\<rparr>]"
  using user_roles_filters_when_supplied [of db_example "''u2''" "Some ''x''" None]
  by (simp add: db_example_def)

text \<open>
  C8. Whatever error a Create raises, the database it leaves is the database it found:
  every error is raised before the insert.
\<close>

theorem failed_create_persists_nothing:
  "add_user_role req_user_id uuid now conn id' role domain tenant_id = (Inl e, conn')
   \<Longrightarrow> conn' = conn"
  by (auto simp add: add_user_role_eq split: sum.splits if_splits)

theorem failed_create_persists_nothing_witness:
  "add_user_role ''u1'' ''x5'' 1 db_example ''u2'' ''r9'' (Some ''none'') (Some ''t9'')
     = (Inl (AccessDenied (not_authorized_msg ''u1'' None (Some ''t9''))), db_example)"
proof -
  have root: "''u1'' \<noteq> zero_uuid"
    by (simp add: zero_uuid_def)
  have admin: "admin_role db_example = Some \<lparr>r_id = ''a1'', r_name = ''Administrator''\<rparr>"
    by (simp add: admin_role_def db_example_def)
  have n: "none_to_null (Some ''none'') = None"
    by code_simp
  have "\<not> (\<exists>r\<in>set (luxon_user_role db_example).
              same_assignment ''u1'' ''a1'' None (Some ''t9'') r)"
    by (simp add: same_assignment_def db_example_def)
  with check_context_auth_admin [OF root admin, of "''u2''" None "Some ''t9''"]
  have "check_context_auth ''u1'' db_example ''u2'' None (Some ''t9'')
        = Inl (AccessDenied (not_authorized_msg ''u1'' None (Some ''t9'')))"
    by simp
  then have res: "add_user_role ''u1'' ''x5'' 1 db_example ''u2'' ''r9'' (Some ''none'') (Some ''t9'')
     = (Inl (AccessDenied (not_authorized_msg ''u1'' None (Some ''t9''))),
        snd (add_user_role ''u1'' ''x5'' 1 db_example ''u2'' ''r9'' (Some ''none'') (Some ''t9'')))"
    by (simp add: add_user_role_eq n)
  from failed_create_persists_nothing [OF res] res show ?thesis
    by simp
qed

text \<open>
  C9. Remove takes its domain as given. With a domain that in lower case is the text
  \<open>none\<close>, it deletes the rows whose domain column holds that very text and keeps every
  row whose domain is null; those are the rows a Remove with no domain deletes. On a
  table holding one assignment with a null domain, the two calls differ.
\<close>

theorem rm_user_role_domain_verbatim:
  "lower d = ''none'' \<Longrightarrow>
   luxon_user_role (snd (rm_user_role conn id' role (Some d) tenant_id))
     = filter (\<lambda>r. \<not> same_assignment id' role (Some d) tenant_id r) (luxon_user_role conn)
   \<and> filter (\<lambda>r. ur_domain r = None) (luxon_user_role (snd (rm_user_role conn id' role (Some d) tenant_id)))
     = filter (\<lambda>r. ur_domain r = None) (luxon_user_role conn)
   \<and> filter (same_assignment id' role None tenant_id)
       (luxon_user_role (snd (rm_user_role conn id' role None tenant_id))) = []
   \<and> rm_user_role
       \<lparr>luxon_role = [], luxon_user = [],
        luxon_user_role = [\<lparr>ur_id = uuid, ur_role_id = role, ur_tenant_id = tenant_id,
                            ur_user_id = id', ur_domain = None, ur_creation_time = now\<rparr>]\<rparr>
       id' role (Some d) tenant_id
     \<noteq> rm_user_role
       \<lparr>luxon_role = [], luxon_user = [],
        luxon_user_role = [\<lparr>ur_id = uuid, ur_role_id = role, ur_tenant_id = tenant_id,
                            ur_user_id = id', ur_domain = None, ur_creation_time = now\<rparr>]\<rparr>
       id' role None tenant_id"
proof (intro conjI)
  show "luxon_user_role (snd (rm_user_role conn id' role (Some d) tenant_id))
     = filter (\<lambda>r. \<not> same_assignment id' role (Some d) tenant_id r) (luxon_user_role conn)"
    by (simp add: rm_user_role_eq)
next
  have "(ur_domain r = None \<and> \<not> same_assignment id' role (Some d) tenant_id r)
        \<longleftrightarrow> ur_domain r = None" for r
    by (auto simp add: same_assignment_def)
  then show "filter (\<lambda>r. ur_domain r = None)
       (luxon_user_role (snd (rm_user_role conn id' role (Some d) tenant_id)))
     = filter (\<lambda>r. ur_domain r = None) (luxon_user_role conn)"
    by (simp add: rm_user_role_eq conj_commute)
next
  show "filter (same_assignment id' role None tenant_id)
       (luxon_user_role (snd (rm_user_role conn id' role None tenant_id))) = []"
    by (simp add: rm_user_role_eq filter_empty_conv)
next
  show "rm_user_role
       \<lparr>luxon_role = [], luxon_user = [],
        luxon_user_role = [\<lparr>ur_id = uuid, ur_role_id = role, ur_tenant_id = tenant_id,
                            ur_user_id = id', ur_domain = None, ur_creation_time = now\<rparr>]\<rparr>
       id' role (Some d) tenant_id
     \<noteq> rm_user_role
       \<lparr>luxon_role = [], luxon_user = [],
        luxon_user_role = [\<lparr>ur_id = uuid, ur_role_id = role, ur_tenant_id = tenant_id,
                            ur_user_id = id', ur_domain = None, ur_creation_time = now\<rparr>]\<rparr>
       id' role None tenant_id"
    by (simp add: rm_user_role_eq same_assignment_def)
qed

theorem rm_user_role_domain_verbatim_witness:
  "lower ''none'' = ''none''
   \<and> rm_user_role db_example ''u2'' ''r9'' (Some ''none'') None
       = (Inr (), db_example\<lparr>luxon_user_role :=
           [\<lparr>ur_id = ''x1'', ur_role_id = ''a1'', ur_tenant_id = None, ur_user_id = ''u1'',
             ur_domain = None, ur_creation_time = 0\<rparr>,
            \<lparr>ur_id = ''x4'', ur_role_id = ''r8'', ur_tenant_id = Some ''t1'', ur_user_id = ''u2'',
             ur_domain = Some ''x'', ur_creation_time = 0\<rparr>]\<rparr>)
   \<and> fst (rm_user_role db_example ''u2'' ''r9'' None None)
       = Inl (HTTPNotFound [(''user_id'', Some ''u2''), (''role_id'', Some ''r9''),
                            (''tenant_id'', None), (''domain'', None)])"
proof -
  have l: "lower ''none'' = ''none''"
    by code_simp
  have rows: "luxon_user_role (snd (rm_user_role db_example ''u2'' ''r9'' (Some ''none'') None))
     = [\<lparr>ur_id = ''x1'', ur_role_id = ''a1'', ur_tenant_id = None, ur_user_id = ''u1'',
             ur_domain = None, ur_creation_time = 0\<rparr>,
            \<lparr>ur_id = ''x4'', ur_role_id = ''r8'', ur_tenant_id = Some ''t1'', ur_user_id = ''u2'',
             ur_domain = Some ''x'', ur_creation_time = 0\<rparr>]"
    using rm_user_role_domain_verbatim [OF l, of db_example "''u2''" "''r9''" None]
    by (simp add: same_assignment_def db_example_def)
  have a: "rm_user_role db_example ''u2'' ''r9'' (Some ''none'') None
       = (Inr (), snd (rm_user_role db_example ''u2'' ''r9'' (Some ''none'') None))"
    by (simp add: rm_user_role_eq same_assignment_def db_example_def)
  have s: "snd (rm_user_role db_example ''u2'' ''r9'' (Some ''none'') None)
       = db_example\<lparr>luxon_user_role :=
           luxon_user_role (snd (rm_user_role db_example ''u2'' ''r9'' (Some ''none'') None))\<rparr>"
    by (simp add: rm_user_role_eq)
  have b: "fst (rm_user_role db_example ''u2'' ''r9'' None None)
       = Inl (HTTPNotFound [(''user_id'', Some ''u2''), (''role_id'', Some ''r9''),
                            (''tenant_id'', None), (''domain'', None)])"
    by (simp add: rm_user_role_eq same_assignment_def db_example_def)
  from a s rows have "rm_user_role db_example ''u2'' ''r9'' (Some ''none'') None
       = (Inr (), db_example\<lparr>luxon_user_role :=
           [\<lparr>ur_id = ''x1'', ur_role_id = ''a1'', ur_tenant_id = None, ur_user_id = ''u1'',
             ur_domain = None, ur_creation_time = 0\<rparr>,
            \<lparr>ur_id = ''x4'', ur_role_id = ''r8'', ur_tenant_id = Some ''t1'', ur_user_id = ''u2'',
             ur_domain = Some ''x'', ur_creation_time = 0\<rparr>]\<rparr>)"
    by metis
  with l b show ?thesis by simp
qed

text \<open>
  C10. A List request whose domain header is present and empty returns what the request
  without that header returns, and likewise for the tenant header.
\<close>

theorem user_roles_empty_header_ignored:
  "user_roles conn id' (Some []) x_tenant_id = user_roles conn id' None x_tenant_id
   \<and> user_roles conn id' x_domain (Some []) = user_roles conn id' x_domain None"
  by (simp add: user_roles_def)

theorem user_roles_empty_header_ignored_witness:
  "user_roles db_example ''u2'' (Some []) (Some [])
     = [\<lparr>ur_id = ''x3'', ur_role_id = ''r9'', ur_tenant_id = None, ur_user_id = ''u2'',
         ur_domain = Some ''none'', ur_creation_time = 0\<rparr>,
        \<lparr>ur_id = ''x4'', ur_role_id = ''r8'', ur_tenant_id = Some ''t1'', ur_user_id = ''u2'',
         ur_domain = Some ''x'', ur_creation_time = 0\<rparr>]
   \<and> user_roles db_example ''u2'' None None = user_roles db_example ''u2'' (Some []) (Some [])"
proof -
  have all: "user_roles db_example ''u2'' None None
     = [\<lparr>ur_id = ''x3'', ur_role_id = ''r9'', ur_tenant_id = None, ur_user_id = ''u2'',
         ur_domain = Some ''none'', ur_creation_time = 0\<rparr>,
        \<lparr>ur_id = ''x4'', ur_role_id = ''r8'', ur_tenant_id = Some ''t1'', ur_user_id = ''u2'',
         ur_domain = Some ''x'', ur_creation_time = 0\<rparr>]"
    by (simp add: user_roles_def select_from_def selected_Cons selected_Nil sql_eq_Text
          user_role_cols_def db_example_def)
  from user_roles_empty_header_ignored [of db_example "''u2''" "Some []" "Some []"]
    user_roles_empty_header_ignored [of db_example "''u2''" None None] all
  show ?thesis by simp
qed

end
